theory Spec2Isabelle
  imports Complex_Main "HOL-Library.Sublist" "HOL-Library.Multiset"
begin

section \<open>Hybrid retrieval of retriever.py: data model\<close>

text \<open>
  The retriever talks to four collaborators that are not part of the repository: the
  embedding endpoint (ollama), the vector store (the Qdrant client), the NLTK word
  tokenizer and the BM25 ranking model. Each of them is a field of the record
  \<open>collaborators\<close>: a function from the arguments of the call to what the call does,
  \<open>Inl\<close> an exception or \<open>Inr\<close> the value returned. Python floats are modelled as
  exact reals, Python strings as \<open>string\<close>, and a dictionary key that may be absent as
  an \<open>option\<close>. The payload of a hit is a dictionary, as the search asks for it
  (\<open>with_payload=True\<close>), and the values under its keys have the types the candidates
  carry. The messages printed on the way are left out.
\<close>

datatype error =
    KeyError string
  | IndexError
  | ExternalError string

text \<open>Every call to a collaborator is recorded, in order, in a trace.\<close>

datatype call =
    CallEmbeddings string string
  | CallCollectionExists string
  | CallSearch string "real list" nat
  | CallWordTokenize string
  | CallBM25Okapi "string list list"
  | CallGetScores "string list"

text \<open>A hit of the vector store: a score and a payload with the keys \<open>text\<close> and
  \<open>metadata\<close>, each of which may be absent, as may every key of the metadata.\<close>

record metadata =
  md_source :: "string option"
  md_chunk_id :: "int option"
  md_total_chunks :: "int option"
  md_language :: "string option"
  md_key_phrases :: "string list option"

record payload =
  payload_text :: "string option"
  payload_metadata :: "metadata option"

record hit =
  hit_payload :: payload
  hit_score :: real

text \<open>The dictionary appended to \<open>retrieved_docs\<close>. The key \<open>bm25_score\<close> is not
  part of the dictionary when it is built; the re-ranking loop adds it.\<close>

record candidate =
  "text" :: string
  score :: real
  source :: string
  chunk_id :: int
  total_chunks :: int
  language :: string
  key_phrases :: "string list"
  bm25_score :: "real option"

record 'b collaborators =
  ollama_embeddings :: "string \<Rightarrow> string \<Rightarrow> error + real list"
  collection_exists :: "string \<Rightarrow> error + bool"
  client_search :: "string \<Rightarrow> real list \<Rightarrow> nat \<Rightarrow> error + hit list"
  word_tokenize :: "string \<Rightarrow> error + string list"
  BM25Okapi :: "string list list \<Rightarrow> error + 'b"
  get_scores :: "'b \<Rightarrow> string list \<Rightarrow> error + real list"

section \<open>generate_embedding\<close>

definition EMBEDDING_SIZES :: "string \<rightharpoonup> nat" where
  "EMBEDDING_SIZES = [''english'' \<mapsto> 1024, ''arabic'' \<mapsto> 1024]"

text \<open>One call of the endpoint, then the lookup of the expected size (a KeyError for a
  language that is not in the table), then padding with zeros on the right or truncation.\<close>

definition generate_embedding ::
  "'b collaborators \<Rightarrow> string \<Rightarrow> string \<Rightarrow> (error + real list) \<times> call list" where
  "generate_embedding env txt lang =
     (let model_name = (if lang = ''arabic'' then ''bge-m3'' else ''bge-m3'') in
      (case ollama_embeddings env model_name txt of
         Inl e \<Rightarrow> Inl e
       | Inr embedding \<Rightarrow>
           (case EMBEDDING_SIZES lang of
              None \<Rightarrow> Inl (KeyError lang)
            | Some expected_size \<Rightarrow>
                Inr (if length embedding < expected_size
                     then embedding @ replicate (expected_size - length embedding) 0
                     else if length embedding > expected_size
                     then take expected_size embedding
                     else embedding)),
       [CallEmbeddings model_name txt]))"

section \<open>tokenize_text\<close>

text \<open>Python's \<open>string.punctuation\<close>; the double quote, the single quote, the backslash
  and the backquote are written by their codes.\<close>

definition punctuation :: string where
  "punctuation =
     ''!'' @ [CHR 0x22] @ ''#$%&'' @ [CHR 0x27] @ ''()*+,-./:;<=>?@['' @ [CHR 0x5C]
     @ '']^_'' @ [CHR 0x60] @ ''{|}~''"

text \<open>\<open>str.lower\<close>, on the ASCII letters.\<close>

definition lower_char :: "char \<Rightarrow> char" where
  "lower_char c =
     (let n = (of_char c :: nat) in if 65 \<le> n \<and> n \<le> 90 then char_of (n + 32) else c)"

definition str_lower :: "string \<Rightarrow> string" where
  "str_lower w = map lower_char w"

text \<open>\<open>word not in string.punctuation\<close> tests a string against a string: Python's
  \<open>in\<close> is then the substring test, here \<open>sublist\<close>.\<close>

definition tokenize_text ::
  "'b collaborators \<Rightarrow> string \<Rightarrow> string \<Rightarrow> (error + string list) \<times> call list" where
  "tokenize_text env txt lang =
     (if lang = ''arabic'' then word_tokenize env txt
      else (case word_tokenize env txt of
              Inl e \<Rightarrow> Inl e
            | Inr words \<Rightarrow> Inr (map str_lower (filter (\<lambda>word. \<not> sublist word punctuation) words))),
      [CallWordTokenize txt])"

section \<open>search_documents\<close>

subsection \<open>Building the candidates from the hits\<close>

definition get_or :: "'a option \<Rightarrow> 'a \<Rightarrow> 'a" where
  "get_or v d = (case v of None \<Rightarrow> d | Some x \<Rightarrow> x)"

definition empty_metadata :: metadata where
  "empty_metadata =
     \<lparr>md_source = None, md_chunk_id = None, md_total_chunks = None,
      md_language = None, md_key_phrases = None\<rparr>"

definition hit_text :: "hit \<Rightarrow> string" where
  "hit_text h = get_or (payload_text (hit_payload h)) ''''"

definition hit_metadata :: "hit \<Rightarrow> metadata" where
  "hit_metadata h = get_or (payload_metadata (hit_payload h)) empty_metadata"

definition make_doc :: "string \<Rightarrow> hit \<Rightarrow> candidate" where
  "make_doc lang h =
     \<lparr>text = hit_text h,
      score = hit_score h,
      source = get_or (md_source (hit_metadata h)) ''Unknown'',
      chunk_id = get_or (md_chunk_id (hit_metadata h)) 0,
      total_chunks = get_or (md_total_chunks (hit_metadata h)) 1,
      language = get_or (md_language (hit_metadata h)) lang,
      key_phrases = get_or (md_key_phrases (hit_metadata h)) [],
      bm25_score = None\<rparr>"

text \<open>The loop over \<open>vector_results\<close>, with the list \<open>retrieved_docs\<close> and the set
  \<open>seen_texts\<close> as its state.\<close>

fun build_docs :: "string \<Rightarrow> hit list \<Rightarrow> candidate list \<Rightarrow> string set \<Rightarrow> candidate list" where
  "build_docs lang [] retrieved_docs seen_texts = retrieved_docs"
| "build_docs lang (h # rest) retrieved_docs seen_texts =
     (let doc_text = hit_text h in
      if doc_text \<notin> seen_texts
      then build_docs lang rest (retrieved_docs @ [make_doc lang h]) (insert doc_text seen_texts)
      else build_docs lang rest retrieved_docs seen_texts)"

subsection \<open>The BM25 re-ranking\<close>

text \<open>The list comprehension that tokenizes the corpus stops at the first exception.\<close>

fun tokenize_corpus ::
  "'b collaborators \<Rightarrow> string \<Rightarrow> string list \<Rightarrow> (error + string list list) \<times> call list" where
  "tokenize_corpus env lang [] = (Inr [], [])"
| "tokenize_corpus env lang (doc # corpus) =
     (case tokenize_text env doc lang of
        (Inl e, tr) \<Rightarrow> (Inl e, tr)
      | (Inr toks, tr) \<Rightarrow>
          (case tokenize_corpus env lang corpus of
             (Inl e, tr') \<Rightarrow> (Inl e, tr @ tr')
           | (Inr rest, tr') \<Rightarrow> (Inr (toks # rest), tr @ tr')))"

text \<open>From the corpus to \<open>bm25_scores\<close>: both tokenizations, the construction of the
  model and the scoring of the query, each of which may raise.\<close>

definition lexical_scores ::
  "'b collaborators \<Rightarrow> string \<Rightarrow> string \<Rightarrow> candidate list \<Rightarrow> (error + real list) \<times> call list" where
  "lexical_scores env query lang retrieved_docs =
     (let corpus = map text retrieved_docs in
      case tokenize_corpus env lang corpus of
        (Inl e, t1) \<Rightarrow> (Inl e, t1)
      | (Inr tokenized_corpus, t1) \<Rightarrow>
          (case BM25Okapi env tokenized_corpus of
             Inl e \<Rightarrow> (Inl e, t1 @ [CallBM25Okapi tokenized_corpus])
           | Inr bm25 \<Rightarrow>
               (case tokenize_text env query lang of
                  (Inl e, t2) \<Rightarrow> (Inl e, t1 @ [CallBM25Okapi tokenized_corpus] @ t2)
                | (Inr query_tokens, t2) \<Rightarrow>
                    (get_scores env bm25 query_tokens,
                     t1 @ [CallBM25Okapi tokenized_corpus] @ t2 @ [CallGetScores query_tokens]))))"

text \<open>The loop \<open>doc["bm25_score"] = bm25_scores[idx]\<close> updates the dictionaries in
  place; an index beyond the scores raises, and the documents before it keep their new
  key. The result is the exception, if any, and the documents as the loop leaves them.\<close>

fun assign_bm25 :: "real list \<Rightarrow> nat \<Rightarrow> candidate list \<Rightarrow> error option \<times> candidate list" where
  "assign_bm25 bm25_scores idx [] = (None, [])"
| "assign_bm25 bm25_scores idx (doc # docs) =
     (if idx < length bm25_scores
      then (case assign_bm25 bm25_scores (idx + 1) docs of
              (e, docs') \<Rightarrow> (e, doc\<lparr>bm25_score := Some (bm25_scores ! idx)\<rparr> # docs'))
      else (Some IndexError, doc # docs))"

text \<open>The key of the sort; reading the key \<open>bm25_score\<close> of a dictionary that has none
  raises.\<close>

definition fused_key :: "real \<Rightarrow> candidate \<Rightarrow> error + real" where
  "fused_key weight_vector x =
     (case bm25_score x of
        None \<Rightarrow> Inl (KeyError ''bm25_score'')
      | Some b \<Rightarrow> Inr ((b * weight_vector) + score x))"

text \<open>\<open>sorted(xs, key=..., reverse=True)\<close>: the keys are computed first, one per
  element, then the elements are sorted on them, the larger key first, elements with
  equal keys in their order in \<open>xs\<close>.\<close>

fun keys_of :: "('a \<Rightarrow> error + real) \<Rightarrow> 'a list \<Rightarrow> error + real list" where
  "keys_of key [] = Inr []"
| "keys_of key (x # xs) =
     (case key x of
        Inl e \<Rightarrow> Inl e
      | Inr k \<Rightarrow> (case keys_of key xs of Inl e \<Rightarrow> Inl e | Inr ks \<Rightarrow> Inr (k # ks)))"

definition sorted_reverse :: "('a \<Rightarrow> error + real) \<Rightarrow> 'a list \<Rightarrow> error + 'a list" where
  "sorted_reverse key xs =
     (case keys_of key xs of
        Inl e \<Rightarrow> Inl e
      | Inr ks \<Rightarrow> Inr (map snd (sort_key (\<lambda>p. - fst p) (zip ks xs))))"

text \<open>The weight of the lexical score in the sort key.\<close>

definition weight_vector :: "string \<Rightarrow> real" where
  "weight_vector lang = (if lang = ''english'' then 0.5 else 1.2)"

text \<open>The body of the second \<open>try\<close>: the exception it caught, if any, and the value of
  \<open>retrieved_docs\<close> after it.\<close>

definition bm25_rerank ::
  "'b collaborators \<Rightarrow> string \<Rightarrow> string \<Rightarrow> candidate list
     \<Rightarrow> (error option \<times> candidate list) \<times> call list" where
  "bm25_rerank env query lang retrieved_docs =
     (case lexical_scores env query lang retrieved_docs of
        (Inl e, tr) \<Rightarrow> ((Some e, retrieved_docs), tr)
      | (Inr bm25_scores, tr) \<Rightarrow>
          (case assign_bm25 bm25_scores 0 retrieved_docs of
             (Some e, docs') \<Rightarrow> ((Some e, docs'), tr)
           | (None, docs') \<Rightarrow>
               (case sorted_reverse (fused_key (weight_vector lang)) docs' of
                  Inl e \<Rightarrow> ((Some e, docs'), tr)
                | Inr ranked \<Rightarrow> ((None, ranked), tr))))"

subsection \<open>The whole function\<close>

definition collection_name :: "string \<Rightarrow> string" where
  "collection_name lang = (if lang = ''arabic'' then ''rag_docs_ar'' else ''rag_docs_en'')"

text \<open>The embedding first: its exception is not caught. Then the check of the collection,
  the search inside the first \<open>try\<close> (any exception gives the empty list), and the
  re-ranking when there is a document.\<close>

definition search_documents ::
  "'b collaborators \<Rightarrow> string \<Rightarrow> string \<Rightarrow> (error + candidate list) \<times> call list" where
  "search_documents env query lang =
     (case generate_embedding env query lang of
        (Inl e, t1) \<Rightarrow> (Inl e, t1)
      | (Inr query_vector, t1) \<Rightarrow>
          (case collection_exists env (collection_name lang) of
             Inl e \<Rightarrow> (Inl e, t1 @ [CallCollectionExists (collection_name lang)])
           | Inr False \<Rightarrow> (Inr [], t1 @ [CallCollectionExists (collection_name lang)])
           | Inr True \<Rightarrow>
               (case client_search env (collection_name lang) query_vector 20 of
                  Inl e \<Rightarrow>
                    (Inr [], t1 @ [CallCollectionExists (collection_name lang),
                                   CallSearch (collection_name lang) query_vector 20])
                | Inr vector_results \<Rightarrow>
                    (let retrieved_docs = build_docs lang vector_results [] {} in
                     if retrieved_docs \<noteq> []
                     then (case bm25_rerank env query lang retrieved_docs of
                             ((caught, docs'), t2) \<Rightarrow>
                               (Inr docs', t1 @ [CallCollectionExists (collection_name lang),
                                                 CallSearch (collection_name lang) query_vector 20] @ t2))
                     else (Inr retrieved_docs,
                           t1 @ [CallCollectionExists (collection_name lang),
                                 CallSearch (collection_name lang) query_vector 20])))))"


section \<open>Runs used as examples\<close>

text \<open>A hit with a text and a dense score and no metadata, the three hits of the
  scenario of the specification (texts A, B, C with dense scores 0.9, 0.85, 0.4), and
  collaborators that answer as in that scenario: the collection exists, the endpoint
  returns a vector of the expected size, the tokenizer returns the text as one token and
  the lexical scores are 0.1, 0.5, 0.05. The other environments change one answer each.\<close>

definition example_hit :: "string \<Rightarrow> real \<Rightarrow> hit" where
  "example_hit t s =
     \<lparr>hit_payload = \<lparr>payload_text = Some t, payload_metadata = None\<rparr>, hit_score = s\<rparr>"

definition scenario_hits :: "hit list" where
  "scenario_hits = [example_hit ''A'' 0.9, example_hit ''B'' 0.85, example_hit ''C'' 0.4]"

definition duplicate_hits :: "hit list" where
  "duplicate_hits = [example_hit ''A'' 0.5, example_hit ''B'' 0.7, example_hit ''A'' 0.9]"

definition tagged_hit :: hit where
  "tagged_hit =
     \<lparr>hit_payload = \<lparr>payload_text = Some ''D'',
                     payload_metadata = Some (empty_metadata\<lparr>md_language := Some ''arabic''\<rparr>)\<rparr>,
      hit_score = 0.3\<rparr>"

definition scenario_env :: "unit collaborators" where
  "scenario_env =
     \<lparr>ollama_embeddings = (\<lambda>model_name prompt. Inr (replicate 1024 0)),
      collection_exists = (\<lambda>name. Inr True),
      client_search = (\<lambda>name v limit. Inr scenario_hits),
      word_tokenize = (\<lambda>t. Inr [t]),
      BM25Okapi = (\<lambda>corpus. Inr ()),
      get_scores = (\<lambda>bm25 q. Inr [0.1, 0.5, 0.05])\<rparr>"

definition short_embedding_env :: "unit collaborators" where
  "short_embedding_env = scenario_env\<lparr>ollama_embeddings := (\<lambda>model_name prompt. Inr [1, 2, 3])\<rparr>"

definition endpoint_down_env :: "unit collaborators" where
  "endpoint_down_env =
     scenario_env\<lparr>ollama_embeddings := (\<lambda>model_name prompt. Inl (ExternalError ''ConnectionError''))\<rparr>"

definition missing_collection_env :: "unit collaborators" where
  "missing_collection_env = scenario_env\<lparr>collection_exists := (\<lambda>name. Inr False)\<rparr>"

definition down_and_missing_env :: "unit collaborators" where
  "down_and_missing_env = endpoint_down_env\<lparr>collection_exists := (\<lambda>name. Inr False)\<rparr>"

definition no_hits_env :: "unit collaborators" where
  "no_hits_env = scenario_env\<lparr>client_search := (\<lambda>name v limit. Inr [])\<rparr>"

definition empty_tokens_env :: "unit collaborators" where
  "empty_tokens_env =
     scenario_env\<lparr>word_tokenize := (\<lambda>t. Inr []),
                  BM25Okapi := (\<lambda>corpus. Inl (ExternalError ''ZeroDivisionError''))\<rparr>"


definition ellipsis_env :: "unit collaborators" where
  "ellipsis_env = scenario_env\<lparr>word_tokenize := (\<lambda>t. Inr [''Wait'', ''...'', ''what''])\<rparr>"

lemmas example_envs =
  scenario_env_def short_embedding_env_def endpoint_down_env_def missing_collection_env_def
  down_and_missing_env_def no_hits_env_def empty_tokens_env_def

section \<open>generate_embedding: the length of the embedding\<close>

lemma EMBEDDING_SIZES_known:
  "lang = ''english'' \<or> lang = ''arabic'' \<Longrightarrow> EMBEDDING_SIZES lang = Some 1024"
  by (auto simp: EMBEDDING_SIZES_def)

lemma generate_embedding_trace:
  "snd (generate_embedding env txt lang) = [CallEmbeddings ''bge-m3'' txt]"
  by (simp add: generate_embedding_def Let_def)

lemma generate_embedding_scenario:
  "ollama_embeddings env = (\<lambda>model_name prompt. Inr (replicate 1024 0)) \<Longrightarrow>
   fst (generate_embedding env q ''english'') = Inr (replicate 1024 0)"
  by (simp add: generate_embedding_def Let_def EMBEDDING_SIZES_def)

text \<open>C2. For the languages english and arabic, when the endpoint returns a raw embedding,
  \<open>generate_embedding\<close> returns a list whose length is the size configured for the
  language in \<open>EMBEDDING_SIZES\<close> (1024): a shorter raw embedding is padded on the right
  with zeros to that size, a longer one is cut to its first elements, and one of that
  size is returned as it is.\<close>

theorem generate_embedding_length:
  assumes "lang = ''english'' \<or> lang = ''arabic''"
      and "ollama_embeddings env ''bge-m3'' txt = Inr raw"
  shows "\<exists>v n. EMBEDDING_SIZES lang = Some n \<and> n = 1024
           \<and> fst (generate_embedding env txt lang) = Inr v \<and> length v = n
           \<and> (length raw < n \<longrightarrow> v = raw @ replicate (n - length raw) 0)
           \<and> (length raw > n \<longrightarrow> v = take n raw)
           \<and> (length raw = n \<longrightarrow> v = raw)"
  using assms EMBEDDING_SIZES_known[OF assms(1)]
  by (auto simp: generate_embedding_def Let_def)

text \<open>A raw embedding of three numbers is padded with 1021 zeros.\<close>

theorem generate_embedding_length_witness:
  "(''english'' = ''english'' \<or> ''english'' = ''arabic'')
   \<and> ollama_embeddings short_embedding_env ''bge-m3'' ''benefits of AI'' = Inr [1, 2, 3]
   \<and> fst (generate_embedding short_embedding_env ''benefits of AI'' ''english'')
       = Inr ([1, 2, 3] @ replicate 1021 0)"
proof -
  have h: "ollama_embeddings short_embedding_env ''bge-m3'' ''benefits of AI'' = Inr [1, 2, 3]"
    by (simp add: example_envs)
  from generate_embedding_length[OF _ h, of "''english''"] show ?thesis
    using h by auto
qed

section \<open>tokenize_text\<close>

lemma tokenize_text_arabic:
  "fst (tokenize_text env txt ''arabic'') = word_tokenize env txt"
  by (simp add: tokenize_text_def)

text \<open>C7. For arabic the tokens of the tokenizer are returned unchanged (the lemma above).
  For english a token is dropped when it is a substring of \<open>string.punctuation\<close>, which
  is not every token made of punctuation only: the tokenizer gives the ellipsis of
  "Wait... what" as the token "...", every character of it is a punctuation character,
  it is no substring of \<open>string.punctuation\<close>, and \<open>tokenize_text\<close> keeps it.\<close>

theorem tokenize_text_keeps_ellipsis:
  "word_tokenize ellipsis_env ''Wait... what'' = Inr [''Wait'', ''...'', ''what'']
   \<and> fst (tokenize_text ellipsis_env ''Wait... what'' ''english'') = Inr [''wait'', ''...'', ''what'']
   \<and> list_all (\<lambda>c. c \<in> set punctuation) ''...''
   \<and> \<not> sublist ''...'' punctuation"
  by code_simp

section \<open>search_documents: the path through the vector search\<close>

lemma search_documents_embedded:
  assumes "fst (generate_embedding env query lang) = Inr qv"
  shows "search_documents env query lang =
     (case collection_exists env (collection_name lang) of
             Inl e \<Rightarrow> (Inl e, [CallEmbeddings ''bge-m3'' query, CallCollectionExists (collection_name lang)])
           | Inr False \<Rightarrow> (Inr [], [CallEmbeddings ''bge-m3'' query, CallCollectionExists (collection_name lang)])
           | Inr True \<Rightarrow>
               (case client_search env (collection_name lang) qv 20 of
                  Inl e \<Rightarrow>
                    (Inr [], [CallEmbeddings ''bge-m3'' query, CallCollectionExists (collection_name lang),
                                   CallSearch (collection_name lang) qv 20])
                | Inr vector_results \<Rightarrow>
                     if build_docs lang vector_results [] {} \<noteq> []
                     then (Inr (snd (fst (bm25_rerank env query lang (build_docs lang vector_results [] {})))),
                           [CallEmbeddings ''bge-m3'' query, CallCollectionExists (collection_name lang),
                                                 CallSearch (collection_name lang) qv 20]
                             @ snd (bm25_rerank env query lang (build_docs lang vector_results [] {})))
                     else (Inr [],
                           [CallEmbeddings ''bge-m3'' query, CallCollectionExists (collection_name lang),
                                 CallSearch (collection_name lang) qv 20])))"
proof -
  obtain r t where g: "generate_embedding env query lang = (r, t)"
    by (cases "generate_embedding env query lang")
  with assms have r: "r = Inr qv" by simp
  from g generate_embedding_trace[of env query lang] have t: "t = [CallEmbeddings ''bge-m3'' query]"
    by simp
  show ?thesis
    unfolding search_documents_def g r t
    by (simp add: Let_def split: sum.split bool.split prod.split)
qed

subsection \<open>A failing embedding endpoint\<close>

text \<open>C5. When the call of the embedding endpoint raises, \<open>search_documents\<close> raises the
  same exception, and the trace of the run is that one call: the endpoint is not called
  again, and neither the vector store, nor the tokenizer, nor the ranking model is
  called, for any language.\<close>

theorem embedding_failure_propagates:
  assumes "ollama_embeddings env ''bge-m3'' query = Inl e"
  shows "search_documents env query lang = (Inl e, [CallEmbeddings ''bge-m3'' query])"
  using assms by (simp add: search_documents_def generate_embedding_def Let_def)

text \<open>The endpoint refuses the connection.\<close>

theorem embedding_failure_propagates_witness:
  "ollama_embeddings endpoint_down_env ''bge-m3'' ''benefits of AI'' = Inl (ExternalError ''ConnectionError'')
   \<and> search_documents endpoint_down_env ''benefits of AI'' ''english''
       = (Inl (ExternalError ''ConnectionError''), [CallEmbeddings ''bge-m3'' ''benefits of AI''])"
proof -
  have h: "ollama_embeddings endpoint_down_env ''bge-m3'' ''benefits of AI''
             = Inl (ExternalError ''ConnectionError'')"
    by (simp add: example_envs)
  from embedding_failure_propagates[OF h] h show ?thesis by simp
qed

subsection \<open>A missing collection, a failing search\<close>




subsection \<open>No hit\<close>

text \<open>C8. When the vector search returns no hit, \<open>search_documents\<close> returns the empty
  list, and the trace of the run ends with the search: the tokenizer and the ranking
  model are not called.\<close>

theorem empty_vector_search_short_circuits:
  assumes "fst (generate_embedding env query lang) = Inr qv"
      and "collection_exists env (collection_name lang) = Inr True"
      and "client_search env (collection_name lang) qv 20 = Inr []"
  shows "search_documents env query lang =
           (Inr [], [CallEmbeddings ''bge-m3'' query,
                     CallCollectionExists (collection_name lang),
                     CallSearch (collection_name lang) qv 20])"
  using assms(2,3) by (simp add: search_documents_embedded[OF assms(1)])

text \<open>The search of the scenario with no hit.\<close>

theorem empty_vector_search_short_circuits_witness:
  "fst (generate_embedding no_hits_env ''benefits of AI'' ''english'') = Inr (replicate 1024 0)
   \<and> collection_exists no_hits_env (collection_name ''english'') = Inr True
   \<and> client_search no_hits_env (collection_name ''english'') (replicate 1024 0) 20 = Inr []
   \<and> search_documents no_hits_env ''benefits of AI'' ''english'' =
           (Inr [], [CallEmbeddings ''bge-m3'' ''benefits of AI'',
                     CallCollectionExists ''rag_docs_en'',
                     CallSearch ''rag_docs_en'' (replicate 1024 0) 20])"
proof -
  have g: "fst (generate_embedding no_hits_env ''benefits of AI'' ''english'')
             = Inr (replicate 1024 0)"
    by (rule generate_embedding_scenario) (simp add: example_envs)
  have c: "collection_exists no_hits_env (collection_name ''english'') = Inr True"
    by (simp add: example_envs)
  have s: "client_search no_hits_env (collection_name ''english'') (replicate 1024 0) 20 = Inr []"
    by (simp add: example_envs)
  from empty_vector_search_short_circuits[OF g c s] g c s show ?thesis
    by (simp add: collection_name_def)
qed

section \<open>Building the candidates\<close>

lemma text_make_doc: "text (make_doc lang h) = hit_text h"
  by (simp add: make_doc_def)

lemma build_docs_distinct:
  "distinct (map text acc) \<Longrightarrow> set (map text acc) \<subseteq> seen \<Longrightarrow>
   distinct (map text (build_docs lang hits acc seen))"
proof (induction hits arbitrary: acc seen)
  case Nil
  then show ?case by simp
next
  case (Cons h rest)
  show ?case
  proof (cases "hit_text h \<in> seen")
    case True
    with Cons show ?thesis by simp
  next
    case False
    have "distinct (map text (acc @ [make_doc lang h]))"
      using Cons.prems False by (auto simp: text_make_doc)
    moreover have "set (map text (acc @ [make_doc lang h])) \<subseteq> insert (hit_text h) seen"
      using Cons.prems by (auto simp: text_make_doc)
    ultimately show ?thesis
      using Cons.IH False by (simp add: Let_def)
  qed
qed

lemma build_docs_first_occurrences:
  "build_docs lang hits acc seen =
     acc @ map (\<lambda>i. make_doc lang (hits ! i))
             (filter (\<lambda>i. hit_text (hits ! i) \<notin> seen \<union> hit_text ` set (take i hits))
                [0..<length hits])"
proof (induction hits arbitrary: acc seen)
  case Nil
  then show ?case by simp
next
  case (Cons h rest)
  have upt: "[0..<length (h # rest)] = 0 # map Suc [0..<length rest]"
    by (simp add: upt_conv_Cons map_Suc_upt del: upt_Suc)
  have tail: "map (\<lambda>i. make_doc lang ((h # rest) ! i))
                (filter (\<lambda>i. hit_text ((h # rest) ! i) \<notin> seen \<union> hit_text ` set (take i (h # rest)))
                   (map Suc [0..<length rest]))
              = map (\<lambda>i. make_doc lang (rest ! i))
                  (filter (\<lambda>i. hit_text (rest ! i)
                                  \<notin> insert (hit_text h) seen \<union> hit_text ` set (take i rest))
                     [0..<length rest])"
    by (simp add: filter_map comp_def conj_ac)
  show ?case
  proof (cases "hit_text h \<in> seen")
    case True
    then have "insert (hit_text h) seen = seen" by auto
    with True Cons.IH[of acc seen] tail upt show ?thesis by simp
  next
    case False
    with Cons.IH[of "acc @ [make_doc lang h]" "insert (hit_text h) seen"] tail upt
    show ?thesis by (simp add: Let_def)
  qed
qed

lemma build_docs_subset:
  "set (build_docs lang hits acc seen) \<subseteq> set acc \<union> make_doc lang ` set hits"
proof (induction hits arbitrary: acc seen)
  case Nil
  then show ?case by simp
next
  case (Cons h rest)
  from Cons.IH[of "acc @ [make_doc lang h]" "insert (hit_text h) seen"] Cons.IH[of acc seen]
  show ?case by (auto simp: Let_def)
qed

lemma build_docs_unscored:
  "c \<in> set (build_docs lang hits [] {}) \<Longrightarrow> bm25_score c = None"
  using build_docs_subset[of lang hits "[]" "{}"] by (auto simp: make_doc_def)

text \<open>C3. The candidates built from the hits have pairwise different texts, and they are, in
  the order of the hits, the candidates of exactly those hits whose text is the text of
  no earlier hit: a later hit with the text of an earlier one is discarded, whatever its
  score.\<close>

theorem build_docs_keeps_first_occurrences:
  "distinct (map text (build_docs lang hits [] {}))
   \<and> build_docs lang hits [] {} =
       map (\<lambda>i. make_doc lang (hits ! i))
         (filter (\<lambda>i. hit_text (hits ! i) \<notin> hit_text ` set (take i hits)) [0..<length hits])"
  using build_docs_distinct[of "[]" "{}" lang hits] build_docs_first_occurrences[of lang hits "[]" "{}"]
  by simp

text \<open>Of two hits with the text A, the first, with the score 0.5, is kept and the
  later one, with the score 0.9, is discarded.\<close>

theorem build_docs_keeps_first_occurrences_witness:
  "build_docs ''english'' duplicate_hits [] {}
     = [make_doc ''english'' (example_hit ''A'' 0.5), make_doc ''english'' (example_hit ''B'' 0.7)]
   \<and> map score (build_docs ''english'' duplicate_hits [] {}) = [0.5, 0.7]
   \<and> distinct (map text (build_docs ''english'' duplicate_hits [] {}))"
proof -
  have e: "build_docs ''english'' duplicate_hits [] {}
     = [make_doc ''english'' (example_hit ''A'' 0.5), make_doc ''english'' (example_hit ''B'' 0.7)]"
    by (simp add: duplicate_hits_def hit_text_def get_or_def example_hit_def Let_def)
  have d: "distinct (map text (build_docs ''english'' duplicate_hits [] {}))"
    using build_docs_keeps_first_occurrences[of "''english''" duplicate_hits] by (rule conjunct1)
  have s: "map score (build_docs ''english'' duplicate_hits [] {}) = [0.5, 0.7]"
    unfolding e by (simp add: make_doc_def example_hit_def)
  from e s d show ?thesis by blast
qed

text \<open>C9. Every candidate is built from a hit by \<open>make_doc\<close>; when the payload of the hit
  has no metadata, or metadata without a language, the language of the candidate is the
  language of the query, and when the metadata has a language it is that language.\<close>

theorem candidate_language_default:
  "set (build_docs lang hits [] {}) \<subseteq> make_doc lang ` set hits
   \<and> (payload_metadata (hit_payload h) = None \<longrightarrow> language (make_doc lang h) = lang)
   \<and> (payload_metadata (hit_payload h) = Some m \<and> md_language m = None
        \<longrightarrow> language (make_doc lang h) = lang)
   \<and> (payload_metadata (hit_payload h) = Some m \<and> md_language m = Some l
        \<longrightarrow> language (make_doc lang h) = l)"
  using build_docs_subset[of lang hits "[]" "{}"]
  by (auto simp: make_doc_def hit_metadata_def get_or_def empty_metadata_def)

text \<open>A hit without metadata and a hit tagged arabic, in an english query.\<close>

theorem candidate_language_default_witness:
  "payload_metadata (hit_payload (example_hit ''A'' 0.9)) = None
   \<and> language (make_doc ''english'' (example_hit ''A'' 0.9)) = ''english''
   \<and> payload_metadata (hit_payload tagged_hit) = Some (empty_metadata\<lparr>md_language := Some ''arabic''\<rparr>)
   \<and> md_language (empty_metadata\<lparr>md_language := Some ''arabic''\<rparr>) = Some ''arabic''
   \<and> language (make_doc ''english'' tagged_hit) = ''arabic''
   \<and> map language (build_docs ''english'' [example_hit ''A'' 0.9, tagged_hit] [] {})
       = [''english'', ''arabic'']"
proof -
  have a: "payload_metadata (hit_payload (example_hit ''A'' 0.9)) = None"
    by (simp add: example_hit_def)
  have b: "payload_metadata (hit_payload tagged_hit) = Some (empty_metadata\<lparr>md_language := Some ''arabic''\<rparr>)
           \<and> md_language (empty_metadata\<lparr>md_language := Some ''arabic''\<rparr>) = Some ''arabic''"
    by (simp add: tagged_hit_def)
  have c: "build_docs ''english'' [example_hit ''A'' 0.9, tagged_hit] [] {}
             = [make_doc ''english'' (example_hit ''A'' 0.9), make_doc ''english'' tagged_hit]"
    by (simp add: hit_text_def get_or_def example_hit_def tagged_hit_def Let_def)
  from candidate_language_default[of "''english''" "[]" "example_hit ''A'' 0.9"] a
  have 1: "language (make_doc ''english'' (example_hit ''A'' 0.9)) = ''english''"
    by simp
  from candidate_language_default[of "''english''" "[]" tagged_hit
      "empty_metadata\<lparr>md_language := Some ''arabic''\<rparr>" "''arabic''"] b
  have 2: "language (make_doc ''english'' tagged_hit) = ''arabic''"
    by simp
  from a b c 1 2 show ?thesis by simp
qed

section \<open>The re-ranking\<close>


lemma assign_bm25_other_fields:
  "map (\<lambda>c. c\<lparr>bm25_score := None\<rparr>) (snd (assign_bm25 bm25_scores idx docs))
     = map (\<lambda>c. c\<lparr>bm25_score := None\<rparr>) docs"
proof (induction docs arbitrary: idx)
  case Nil
  then show ?case by simp
next
  case (Cons d docs)
  from Cons.IH[of "idx + 1"] show ?case
    by (cases "assign_bm25 bm25_scores (idx + 1) docs") simp
qed

lemma unscored_clear:
  "(\<And>c. c \<in> set docs \<Longrightarrow> bm25_score c = None) \<Longrightarrow>
   map (\<lambda>c. c\<lparr>bm25_score := None\<rparr>) docs = docs" for docs :: "candidate list"
  by (induction docs) simp_all








lemma bm25_rerank_lexical_failure:
  "fst (lexical_scores env query lang docs) = Inl e \<Longrightarrow>
   fst (bm25_rerank env query lang docs) = (Some e, docs)"
  by (cases "lexical_scores env query lang docs") (simp add: bm25_rerank_def)

lemma bm25_rerank_caught:
  assumes "fst (fst (bm25_rerank env query lang docs)) = Some e"
  shows "map (\<lambda>c. c\<lparr>bm25_score := None\<rparr>) (snd (fst (bm25_rerank env query lang docs)))
           = map (\<lambda>c. c\<lparr>bm25_score := None\<rparr>) docs"
proof -
  obtain r tr where l: "lexical_scores env query lang docs = (r, tr)"
    by (cases "lexical_scores env query lang docs")
  show ?thesis
  proof (cases r)
    case (Inl e')
    then show ?thesis by (simp add: bm25_rerank_def l)
  next
    case (Inr bm25_scores)
    obtain caught docs' where a: "assign_bm25 bm25_scores 0 docs = (caught, docs')"
      by (cases "assign_bm25 bm25_scores 0 docs")
    from assign_bm25_other_fields[of bm25_scores 0 docs] a
    have d: "map (\<lambda>c. c\<lparr>bm25_score := None\<rparr>) docs' = map (\<lambda>c. c\<lparr>bm25_score := None\<rparr>) docs"
      by simp
    show ?thesis
      using assms d
      by (auto simp: bm25_rerank_def l Inr a split: option.splits sum.splits)
  qed
qed

subsection \<open>The order of the result\<close>



subsection \<open>A failing lexical scoring\<close>




text \<open>C10. When the re-ranking catches an exception, \<open>search_documents\<close> returns the
  candidates built from the vector search, in their order, each with its text, dense
  score and metadata fields unchanged; when the exception comes from the lexical scoring
  itself, the list returned is exactly the list built.\<close>

theorem lexical_failure_returns_vector_order:
  assumes emb: "fst (generate_embedding env query lang) = Inr qv"
      and ex: "collection_exists env (collection_name lang) = Inr True"
      and hits: "client_search env (collection_name lang) qv 20 = Inr hits"
      and docs: "docs = build_docs lang hits [] {}" "docs \<noteq> []"
      and caught: "fst (fst (bm25_rerank env query lang docs)) = Some e"
  shows "\<exists>returned.
           fst (search_documents env query lang) = Inr returned
         \<and> map (\<lambda>c. c\<lparr>bm25_score := None\<rparr>) returned = docs
         \<and> ((\<exists>e'. fst (lexical_scores env query lang docs) = Inl e') \<longrightarrow> returned = docs)"
proof -
  let ?returned = "snd (fst (bm25_rerank env query lang docs))"
  have r: "fst (search_documents env query lang) = Inr ?returned"
    using ex hits docs by (simp add: search_documents_embedded[OF emb])
  have "map (\<lambda>c. c\<lparr>bm25_score := None\<rparr>) docs = docs"
    by (rule unscored_clear) (simp add: docs(1) build_docs_unscored)
  with bm25_rerank_caught[OF caught]
  have c: "map (\<lambda>c. c\<lparr>bm25_score := None\<rparr>) ?returned = docs"
    by simp
  have x: "?returned = docs" if "fst (lexical_scores env query lang docs) = Inl e'" for e'
    using bm25_rerank_lexical_failure[OF that] by simp
  from r c x show ?thesis by blast
qed

text \<open>The construction of the ranking model raises; the result is A, B, C, as
  built.\<close>

theorem lexical_failure_returns_vector_order_witness:
  "fst (generate_embedding empty_tokens_env ''benefits of AI in healthcare'' ''english'')
     = Inr (replicate 1024 0)
   \<and> collection_exists empty_tokens_env (collection_name ''english'') = Inr True
   \<and> client_search empty_tokens_env (collection_name ''english'') (replicate 1024 0) 20
       = Inr scenario_hits
   \<and> build_docs ''english'' scenario_hits [] {} \<noteq> []
   \<and> fst (fst (bm25_rerank empty_tokens_env ''benefits of AI in healthcare'' ''english''
                 (build_docs ''english'' scenario_hits [] {})))
       = Some (ExternalError ''ZeroDivisionError'')
   \<and> fst (lexical_scores empty_tokens_env ''benefits of AI in healthcare'' ''english''
            (build_docs ''english'' scenario_hits [] {})) = Inl (ExternalError ''ZeroDivisionError'')
   \<and> fst (search_documents empty_tokens_env ''benefits of AI in healthcare'' ''english'')
       = Inr (build_docs ''english'' scenario_hits [] {})
   \<and> map text (build_docs ''english'' scenario_hits [] {}) = [''A'', ''B'', ''C'']"
proof -
  let ?q = "''benefits of AI in healthcare''"
  let ?docs = "build_docs ''english'' scenario_hits [] {}"
  have g: "fst (generate_embedding empty_tokens_env ?q ''english'') = Inr (replicate 1024 0)"
    by (rule generate_embedding_scenario) (simp add: example_envs)
  have c: "collection_exists empty_tokens_env (collection_name ''english'') = Inr True"
    by (simp add: example_envs)
  have s: "client_search empty_tokens_env (collection_name ''english'') (replicate 1024 0) 20
             = Inr scenario_hits"
    by (simp add: example_envs scenario_hits_def)
  have n: "?docs \<noteq> []"
    by code_simp
  have b: "fst (fst (bm25_rerank empty_tokens_env ?q ''english'' ?docs))
             = Some (ExternalError ''ZeroDivisionError'')"
    by code_simp
  have l: "fst (lexical_scores empty_tokens_env ?q ''english'' ?docs)
             = Inl (ExternalError ''ZeroDivisionError'')"
    by code_simp
  have t: "map text ?docs = [''A'', ''B'', ''C'']"
    by code_simp
  from lexical_failure_returns_vector_order[OF g c s refl n b] l
  have "fst (search_documents empty_tokens_env ?q ''english'') = Inr ?docs"
    by auto
  with g c s n b l t show ?thesis by blast
qed

end
